theory Spec2Isabelle
  imports Main "HOL-Library.Multiset"
begin

unbundle bit_operations_syntax

section \<open>Go library functions used by the tracking code\<close>

text \<open>
  A Go \<open>string\<close> is a sequence of bytes, here a \<open>char list\<close>. A Go \<open>error\<close> value is
  represented by the text its \<open>Error()\<close> method returns (every error the modelled code
  builds comes from \<open>fmt.Errorf\<close>, and the only things done with an error are the test
  against \<open>nil\<close> and formatting with \<open>%v\<close>, \<open>%w\<close>); \<open>nil\<close> is \<open>None\<close>.
  Go's \<open>int\<close> is modelled as \<open>int\<close>; the code does no arithmetic on it, and
  \<open>Atoi\<close> below keeps the parsed values inside the 64-bit range.
\<close>

type_synonym error = string

text \<open>
  \<open>strings.ToLower\<close>: a string of ASCII bytes only is mapped byte by byte (each of
  \<open>'A'..'Z'\<close> replaced by its lower-case letter, every other byte kept). A string
  holding a byte \<open>\<ge> 0x80\<close> goes through \<open>strings.Map(unicode.ToLower, s)\<close>, whose
  Unicode tables are not modelled: that path is the parameter \<open>U\<close>.
\<close>

definition lower_byte :: "char \<Rightarrow> char" where
  "lower_byte c =
     (case map_of (zip ''ABCDEFGHIJKLMNOPQRSTUVWXYZ'' ''abcdefghijklmnopqrstuvwxyz'') c of
        Some l \<Rightarrow> l
      | None \<Rightarrow> c)"

definition isASCII :: "string \<Rightarrow> bool" where
  "isASCII s = list_all (\<lambda>c. of_char c < (128::nat)) s"

definition ToLower :: "(string \<Rightarrow> string) \<Rightarrow> string \<Rightarrow> string" where
  "ToLower U s = (if isASCII s then map lower_byte s else U s)"

text \<open>\<open>strings.Join(elems, sep)\<close>.\<close>

fun Join :: "string list \<Rightarrow> string \<Rightarrow> string" where
  "Join [] sep = []"
| "Join [e] sep = e"
| "Join (e # es) sep = e @ sep @ Join es sep"

text \<open>
  \<open>strconv.Itoa\<close> and the verb \<open>%d\<close>: decimal digits, with a leading \<open>-\<close> for a
  negative number.
\<close>

definition digit_char :: "nat \<Rightarrow> char" where
  "digit_char d = ''0123456789'' ! (d mod 10)"

function decimal :: "nat \<Rightarrow> string" where
  "decimal n = (if n < 10 then [digit_char n] else decimal (n div 10) @ [digit_char (n mod 10)])"
  by pat_completeness auto
termination
  by (relation "measure (\<lambda>n. n)") auto

declare decimal.simps [simp del]

definition Itoa :: "int \<Rightarrow> string" where
  "Itoa i = (if i < 0 then CHR ''-'' # decimal (nat (- i)) else decimal (nat i))"

text \<open>
  \<open>strconv.Atoi\<close> for a 64-bit \<open>int\<close>, which is \<open>ParseInt(s, 10, 0)\<close> (its fast path for
  short texts computes the same result): an optional sign, then \<open>ParseUint\<close>'s loop
  over the bytes, which refuses a byte that is not a decimal digit (\<open>ErrSyntax\<close>) and
  a value that leaves 64 bits (\<open>ErrRange\<close>), in the order the bytes come; then the
  signed range check.
\<close>

datatype NumError = ErrSyntax | ErrRange

definition digit_value :: "char \<Rightarrow> nat option" where
  "digit_value c =
     (if (48::nat) \<le> of_char c \<and> of_char c \<le> (57::nat) then Some (of_char c - 48) else None)"

fun ParseUint_loop :: "nat \<Rightarrow> string \<Rightarrow> NumError + nat" where
  "ParseUint_loop n [] = Inr n"
| "ParseUint_loop n (c # cs) =
     (case digit_value c of
        None \<Rightarrow> Inl ErrSyntax
      | Some d \<Rightarrow>
          if n \<ge> (2 ^ 64 - 1) div 10 + 1 then Inl ErrRange
          else if n * 10 + d > 2 ^ 64 - 1 then Inl ErrRange
          else ParseUint_loop (n * 10 + d) cs)"

definition ParseUint :: "string \<Rightarrow> NumError + nat" where
  "ParseUint s = (if s = [] then Inl ErrSyntax else ParseUint_loop 0 s)"

definition Atoi :: "string \<Rightarrow> NumError + int" where
  "Atoi s =
     (case s of
        [] \<Rightarrow> Inl ErrSyntax
      | c # cs \<Rightarrow>
          (let neg = (c = CHR ''-'');
               s1 = (if c = CHR ''+'' \<or> c = CHR ''-'' then cs else s)
           in case ParseUint s1 of
                Inl err \<Rightarrow> Inl err
              | Inr un \<Rightarrow>
                  if \<not> neg \<and> un \<ge> 2 ^ 63 then Inl ErrRange
                  else if neg \<and> un > 2 ^ 63 then Inl ErrRange
                  else Inr (if neg then - int un else int un)))"

text \<open>
  The text of a \<open>*strconv.NumError\<close>. \<open>strconv.Quote\<close> (Go's quoting of the offending
  text, with its Unicode tables) is not modelled: it is the parameter \<open>quote\<close>.
\<close>

definition NumError_Error :: "(string \<Rightarrow> string) \<Rightarrow> string \<Rightarrow> string \<Rightarrow> NumError \<Rightarrow> error" where
  "NumError_Error quote func num err =
     ''strconv.'' @ func @ '': parsing '' @ quote num @ '': '' @
     (case err of ErrSyntax \<Rightarrow> ''invalid syntax'' | ErrRange \<Rightarrow> ''value out of range'')"





subsection \<open>\<open>sort.Slice\<close>\<close>




















































section \<open>Configuration and the external collaborators of \<open>tracking.go\<close>\<close>

text \<open>
  Modelled from the spec: the declaration of \<open>CurdConfig\<close> is outside the given sources.
  The configuration surface is a tracking-service name and a dual-tracking flag; the
  record adds \<open>RofiSelection\<close>, which \<open>RateAnimeMAL\<close> reads.
\<close>

record CurdConfig =
  TrackingService :: string
  DualTracking :: bool
  RofiSelection :: bool

text \<open>
  The functions of \<open>tracking.go\<close> reach the two backends only through the adapter
  functions listed here (the AniList ones live outside the given sources, the MAL ones
  are network wrappers of \<open>myanimelist.go\<close>). A call to one of them is an event of the
  trace; what it returns is decided by the collaborators, which may depend on every call
  made before. \<open>Log\<close> and \<open>CurdOut\<close> (debug log and console output, defined outside the
  given sources) influence neither a result nor a backend call and are left out.
\<close>

datatype call =
    Call_UpdateMALAnimeProgress string int int
  | Call_UpdateAnimeProgress string int int
  | Call_UpdateMALAnimeStatus string int string
  | Call_UpdateAnimeStatus string int string
  | Call_RateAnimeMAL string int
  | Call_RateAnime string int
  | Call_GetAnimeMalID int
  | Call_ConvertMALIDToAnilist int string

record collaborators =
  unicodeLower :: "string \<Rightarrow> string"
  returned_error :: "call list \<Rightarrow> call \<Rightarrow> error option"
  returned_id :: "call list \<Rightarrow> call \<Rightarrow> int"

type_synonym trace = "call list"

definition perform :: "collaborators \<Rightarrow> call \<Rightarrow> trace \<Rightarrow> error option \<times> trace" where
  "perform K c tr = (returned_error K tr c, tr @ [c])"

definition perform_lookup :: "collaborators \<Rightarrow> call \<Rightarrow> trace \<Rightarrow> (int \<times> error option) \<times> trace" where
  "perform_lookup K c tr = ((returned_id K tr c, returned_error K tr c), tr @ [c])"

section \<open>\<open>tracking.go\<close>\<close>

definition GetTrackingService :: "collaborators \<Rightarrow> CurdConfig \<Rightarrow> string" where
  "GetTrackingService K config =
     (let service = ToLower (unicodeLower K) (TrackingService config) in
      if service = ''mal'' \<or> service = ''myanimelist'' then ''mal''
      else ''anilist'')"

definition UpdateAnimeProgressUnified ::
  "collaborators \<Rightarrow> string \<Rightarrow> int \<Rightarrow> int \<Rightarrow> CurdConfig \<Rightarrow> trace \<Rightarrow> error option \<times> trace" where
  "UpdateAnimeProgressUnified K token mediaID progress config tr =
     (let service = GetTrackingService K config;
          (primaryErr, tr1) =
             (if service = ''mal'' then perform K (Call_UpdateMALAnimeProgress token mediaID progress) tr
              else perform K (Call_UpdateAnimeProgress token mediaID progress) tr)
      in if \<not> DualTracking config then (primaryErr, tr1)
         else (primaryErr, tr1))"

definition UpdateAnimeProgressDual ::
  "collaborators \<Rightarrow> string \<Rightarrow> string \<Rightarrow> int \<Rightarrow> int \<Rightarrow> int \<Rightarrow> CurdConfig \<Rightarrow> trace
     \<Rightarrow> error option \<times> trace" where
  "UpdateAnimeProgressDual K anilistToken malToken anilistID malID progress config tr =
     (if \<not> DualTracking config then
        (let service = GetTrackingService K config in
         if service = ''mal'' then perform K (Call_UpdateMALAnimeProgress malToken malID progress) tr
         else perform K (Call_UpdateAnimeProgress anilistToken anilistID progress) tr)
      else
        (let (errors1, tr1) =
               (if malToken \<noteq> [] \<and> malID > 0 then
                  (case perform K (Call_UpdateMALAnimeProgress malToken malID progress) tr of
                     (Some err, t) \<Rightarrow> ([] @ [''MAL: '' @ err], t)
                   | (None, t) \<Rightarrow> ([], t))
                else ([], tr));
             (errors2, tr2) =
               (if anilistToken \<noteq> [] \<and> anilistID > 0 then
                  (case perform K (Call_UpdateAnimeProgress anilistToken anilistID progress) tr1 of
                     (Some err, t) \<Rightarrow> (errors1 @ [''AniList: '' @ err], t)
                   | (None, t) \<Rightarrow> (errors1, t))
                else (errors1, tr1))
         in if length errors2 > 0
            then (Some (''dual tracking errors: '' @ Join errors2 ''; ''), tr2)
            else (None, tr2)))"

definition UpdateAnimeStatusDual ::
  "collaborators \<Rightarrow> string \<Rightarrow> string \<Rightarrow> int \<Rightarrow> int \<Rightarrow> string \<Rightarrow> CurdConfig \<Rightarrow> trace
     \<Rightarrow> error option \<times> trace" where
  "UpdateAnimeStatusDual K anilistToken malToken anilistID malID status config tr =
     (if \<not> DualTracking config then
        (let service = GetTrackingService K config in
         if service = ''mal'' then perform K (Call_UpdateMALAnimeStatus malToken malID status) tr
         else perform K (Call_UpdateAnimeStatus anilistToken anilistID status) tr)
      else
        (let (errors1, tr1) =
               (if malToken \<noteq> [] \<and> malID > 0 then
                  (case perform K (Call_UpdateMALAnimeStatus malToken malID status) tr of
                     (Some err, t) \<Rightarrow> ([] @ [''MAL: '' @ err], t)
                   | (None, t) \<Rightarrow> ([], t))
                else ([], tr));
             (errors2, tr2) =
               (if anilistToken \<noteq> [] \<and> anilistID > 0 then
                  (case perform K (Call_UpdateAnimeStatus anilistToken anilistID status) tr1 of
                     (Some err, t) \<Rightarrow> (errors1 @ [''AniList: '' @ err], t)
                   | (None, t) \<Rightarrow> (errors1, t))
                else (errors1, tr1))
         in if length errors2 > 0
            then (Some (''dual tracking errors: '' @ Join errors2 ''; ''), tr2)
            else (None, tr2)))"

definition RateAnimeDual ::
  "collaborators \<Rightarrow> string \<Rightarrow> string \<Rightarrow> int \<Rightarrow> int \<Rightarrow> CurdConfig \<Rightarrow> trace
     \<Rightarrow> error option \<times> trace" where
  "RateAnimeDual K anilistToken malToken anilistID malID config tr =
     (if \<not> DualTracking config then
        (let service = GetTrackingService K config in
         if service = ''mal'' then perform K (Call_RateAnimeMAL malToken malID) tr
         else perform K (Call_RateAnime anilistToken anilistID) tr)
      else
        (let (errors1, tr1) =
               (if malToken \<noteq> [] \<and> malID > 0 then
                  (case perform K (Call_RateAnimeMAL malToken malID) tr of
                     (Some err, t) \<Rightarrow> ([] @ [''MAL: '' @ err], t)
                   | (None, t) \<Rightarrow> ([], t))
                else ([], tr));
             (errors2, tr2) =
               (if anilistToken \<noteq> [] \<and> anilistID > 0 then
                  (case perform K (Call_RateAnime anilistToken anilistID) tr1 of
                     (Some err, t) \<Rightarrow> (errors1 @ [''AniList: '' @ err], t)
                   | (None, t) \<Rightarrow> (errors1, t))
                else (errors1, tr1))
         in if length errors2 > 0
            then (Some (''dual tracking errors: '' @ Join errors2 ''; ''), tr2)
            else (None, tr2)))"

definition ConvertIDIfNeeded ::
  "collaborators \<Rightarrow> int \<Rightarrow> string \<Rightarrow> string \<Rightarrow> trace \<Rightarrow> (int \<times> error option) \<times> trace" where
  "ConvertIDIfNeeded K id' fromService toService tr =
     (if fromService = toService then ((id', None), tr)
      else if fromService = ''anilist'' \<and> (toService = ''mal'' \<or> toService = ''myanimelist'')
        then perform_lookup K (Call_GetAnimeMalID id') tr
      else if (fromService = ''mal'' \<or> fromService = ''myanimelist'') \<and> toService = ''anilist''
        then perform_lookup K (Call_ConvertMALIDToAnilist id' []) tr
      else ((id', Some (''unsupported service conversion: '' @ fromService @ '' to '' @ toService)), tr))"

text \<open>
  Modelled from the spec: the declarations of \<open>Media\<close>, \<open>Entry\<close> and \<open>AnimeList\<close> are
  outside the given sources. An entry carries the media identity, the progress and the
  status; the list has one sequence of entries per category, in backend order. These are
  the fields \<open>FindAnimeByIDUnified\<close> reads (\<open>list.Watching\<close>, \<open>entry.Media.ID\<close>).
\<close>

record Media =
  ID :: int

record Entry =
  Media :: Media
  Progress :: int
  Status :: string

record AnimeList =
  Watching :: "Entry list"
  Completed :: "Entry list"
  Paused :: "Entry list"
  Dropped :: "Entry list"
  Planning :: "Entry list"
  Rewatching :: "Entry list"

text \<open>
  The two nested loops of \<open>FindAnimeByIDUnified\<close>: over the entries of a category, and
  over the categories; the first match returns.
\<close>

fun scan_category :: "int \<Rightarrow> Entry list \<Rightarrow> Entry option" where
  "scan_category i [] = None"
| "scan_category i (entry # rest) =
     (if ID (Media entry) = i then Some entry else scan_category i rest)"

fun scan_categories :: "int \<Rightarrow> Entry list list \<Rightarrow> Entry option" where
  "scan_categories i [] = None"
| "scan_categories i (category # rest) =
     (case scan_category i category of
        Some entry \<Rightarrow> Some entry
      | None \<Rightarrow> scan_categories i rest)"

definition FindAnimeByIDUnified :: "AnimeList \<Rightarrow> string \<Rightarrow> error + Entry" where
  "FindAnimeByIDUnified list idStr =
     (case Atoi idStr of
        Inl err \<Rightarrow> Inl (''invalid ID format: '' @ idStr)
      | Inr i \<Rightarrow>
          (let categories =
                 [Watching list, Completed list, Paused list, Dropped list, Planning list,
                  Rewatching list]
           in case scan_categories i categories of
                Some entry \<Rightarrow> Inr entry
              | None \<Rightarrow> Inl (''anime with ID '' @ Itoa i @ '' not found'')))"

section \<open>\<open>myanimelist.go\<close>\<close>

text \<open>
  The MAL adapters talk to the backend through \<open>http.Client.Do\<close>. A request is recorded
  with its method, URL, headers and form fields (the \<open>url.Values\<close> that
  \<open>data.Encode()\<close> serialises into the body, kept as the list of fields). The reply is
  either a transport error or a response with its status code, the body that was read
  and the error of reading it, if any. What the backend replies is decided by the
  environment and may depend on every request sent before.
\<close>

record Request =
  Method :: string
  URL :: string
  Header :: "(string \<times> string) list"
  Form :: "(string \<times> string) list"

datatype Reply = Refused error | Response int string "error option"

text \<open>
  The candidate record of \<open>SearchAnimeMAL\<close> (\<open>scoredAnime\<close>; its field \<open>id\<close> is
  \<open>anime_id\<close> here) and the option it returns (\<open>SelectionOption\<close>, declared outside the given
  sources, with the two fields the function fills).
\<close>

record scoredAnime =
  anime_id :: string
  title :: string
  score :: int


text \<open>
  The environment of the MAL adapters: the backend, the JSON decoding of a search
  response into its \<open>(id, title)\<close> nodes, the generator that \<open>sort.Slice\<close> draws from
  when it breaks patterns, the scorer \<open>levenshtein\<close> (defined outside the given
  sources), the current date as
  \<open>time.Now().Format("2006-01-02")\<close> prints it, the global configuration (which may be
  \<open>nil\<close>), the answer of the rofi prompt, the integer \<open>fmt.Scanln\<close> leaves in \<open>score\<close>
  (zero when it stores nothing), and \<open>strconv.Quote\<close>.
\<close>

record MAL_env =
  http :: "Request list \<Rightarrow> Request \<Rightarrow> Reply"
  Unmarshal_search :: "string \<Rightarrow> error + (int \<times> string) list"
  xorshift_Next :: "nat \<Rightarrow> nat"
  levenshtein :: "string \<Rightarrow> string \<Rightarrow> int"
  today :: string
  GetGlobalConfig :: "CurdConfig option"
  GetUserInputFromRofi :: "error + string"
  Scanln :: int
  Quote :: "string \<Rightarrow> string"

definition client_Do :: "MAL_env \<Rightarrow> Request \<Rightarrow> Request list \<Rightarrow> Reply \<times> Request list" where
  "client_Do E req w = (http E w req, w @ [req])"

definition malAPIURL :: string where
  "malAPIURL = ''https://api.myanimelist.net/v2''"

text \<open>
  One entry of the MAL list (\<open>MALAnimeListEntry\<close>, its nested fields written with
  their path) and the AniList-shaped entry \<open>convertMALToAnilistFormat\<close> builds (a nested
  \<open>map[string]interface{}\<close>, its keys written with their path; the score is the
  integer that the code converts to \<open>float64\<close>).
\<close>

record MALAnimeListEntry =
  Node_ID :: int
  Node_Title :: string
  Node_MainPicture_Large :: string
  Node_MainPicture_Medium :: string
  Node_NumEpisodes :: int
  ListStatus_Status :: string
  ListStatus_Score :: int
  ListStatus_NumEpisodesWatched :: int
  ListStatus_IsRewatching :: bool

record AnilistFormatEntry =
  media_id :: int
  media_episodes :: int
  media_duration :: int
  media_title_romaji :: string
  media_title_english :: string
  media_title_native :: string
  media_coverImage_large :: string
  entry_status :: string
  entry_score :: int
  entry_progress :: int

fun convertMALToAnilistFormat :: "MALAnimeListEntry list \<Rightarrow> AnilistFormatEntry list" where
  "convertMALToAnilistFormat [] = []"
| "convertMALToAnilistFormat (malEntry # rest) =
     (let status0 =
            (if ListStatus_Status malEntry = ''watching'' then ''CURRENT''
             else if ListStatus_Status malEntry = ''completed'' then ''COMPLETED''
             else if ListStatus_Status malEntry = ''on_hold'' then ''PAUSED''
             else if ListStatus_Status malEntry = ''dropped'' then ''DROPPED''
             else if ListStatus_Status malEntry = ''plan_to_watch'' then ''PLANNING''
             else ''CURRENT'');
          status = (if ListStatus_IsRewatching malEntry then ''REPEATING'' else status0);
          entry =
            \<lparr>media_id = Node_ID malEntry,
             media_episodes = Node_NumEpisodes malEntry,
             media_duration = 24,
             media_title_romaji = Node_Title malEntry,
             media_title_english = Node_Title malEntry,
             media_title_native = Node_Title malEntry,
             media_coverImage_large = Node_MainPicture_Large malEntry,
             entry_status = status,
             entry_score = ListStatus_Score malEntry,
             entry_progress = ListStatus_NumEpisodesWatched malEntry\<rparr>
      in entry # convertMALToAnilistFormat rest)"


text \<open>\<open>url.Values.Set\<close> on the list of fields: the value of the key is replaced.\<close>

fun Values_Set :: "(string \<times> string) list \<Rightarrow> string \<Rightarrow> string \<Rightarrow> (string \<times> string) list" where
  "Values_Set [] k v = [(k, v)]"
| "Values_Set ((k', v') # rest) k v =
     (if k' = k then (k, v) # rest else (k', v') # Values_Set rest k v)"

definition UpdateMALAnimeStatus ::
  "MAL_env \<Rightarrow> string \<Rightarrow> int \<Rightarrow> string \<Rightarrow> Request list \<Rightarrow> error option \<times> Request list" where
  "UpdateMALAnimeStatus E token mediaID status w =
     (let apiURL = malAPIURL @ ''/anime/'' @ Itoa mediaID @ ''/my_list_status'';
          malStatus =
            (if status = ''CURRENT'' then ''watching''
             else if status = ''COMPLETED'' then ''completed''
             else if status = ''PAUSED'' then ''on_hold''
             else if status = ''DROPPED'' then ''dropped''
             else if status = ''PLANNING'' then ''plan_to_watch''
             else if status = ''REPEATING'' then ''watching''
             else []);
          data0 = [(''status'', malStatus)];
          data1 = (if status = ''COMPLETED'' then Values_Set data0 ''finish_date'' (today E) else data0);
          data2 = (if status = ''REPEATING'' then Values_Set data1 ''is_rewatching'' ''true'' else data1);
          req = \<lparr>Method = ''PATCH'', URL = apiURL,
                 Header = [(''Authorization'', ''Bearer '' @ token),
                           (''Content-Type'', ''application/x-www-form-urlencoded'')],
                 Form = data2\<rparr>;
          (reply, w1) = client_Do E req w
      in case reply of
           Refused err \<Rightarrow> (Some (''failed to make request: '' @ err), w1)
         | Response code body readErr \<Rightarrow>
             if code \<noteq> 200 then
               (Some (''failed to update status. Status Code: '' @ Itoa code @ '', Response: '' @ body), w1)
             else (None, w1))"

definition RateAnimeMAL ::
  "MAL_env \<Rightarrow> string \<Rightarrow> int \<Rightarrow> Request list \<Rightarrow> error option \<times> Request list" where
  "RateAnimeMAL E token mediaID w =
     (case GetGlobalConfig E of
        None \<Rightarrow> (Some ''failed to get curd config'', w)
      | Some userCurdConfig \<Rightarrow>
          (case (if RofiSelection userCurdConfig then
                   (case GetUserInputFromRofi E of
                      Inl err \<Rightarrow> Inl err
                    | Inr userInput \<Rightarrow>
                        (case Atoi userInput of
                           Inl err \<Rightarrow> Inl (NumError_Error (Quote E) ''Atoi'' userInput err)
                         | Inr n \<Rightarrow> Inr n))
                 else Inr (Scanln E)) of
             Inl err \<Rightarrow> (Some err, w)
           | Inr score' \<Rightarrow>
               if score' < 0 \<or> score' > 10 then (Some ''score must be between 0 and 10'', w)
               else
                 (let apiURL = malAPIURL @ ''/anime/'' @ Itoa mediaID @ ''/my_list_status'';
                      data = [(''score'', Itoa score')];
                      req = \<lparr>Method = ''PATCH'', URL = apiURL,
                             Header = [(''Authorization'', ''Bearer '' @ token),
                                       (''Content-Type'', ''application/x-www-form-urlencoded'')],
                             Form = data\<rparr>;
                      (reply, w1) = client_Do E req w
                  in case reply of
                       Refused err \<Rightarrow> (Some (''failed to make request: '' @ err), w1)
                     | Response code body readErr \<Rightarrow>
                         if code \<noteq> 200 then
                           (Some (''failed to rate anime. Status Code: '' @ Itoa code @ '', Response: '' @ body), w1)
                         else (None, w1))))"

section \<open>Statement vocabulary and sample collaborators\<close>

text \<open>
  The words of the dual-write contract: a backend is skipped when its token is empty or
  its media ID is not positive; a failure is reported as the pair
  \<open>"<backend>: <error>"\<close>; the pairs are aggregated into one error.
\<close>

definition skipped :: "string \<Rightarrow> int \<Rightarrow> bool" where
  "skipped token mediaID = (token = [] \<or> mediaID \<le> 0)"

definition failure_pair :: "string \<Rightarrow> error option \<Rightarrow> string list" where
  "failure_pair backend r = (case r of None \<Rightarrow> [] | Some e \<Rightarrow> [backend @ '': '' @ e])"

definition aggregated :: "string list \<Rightarrow> error option" where
  "aggregated pairs =
     (if pairs = [] then None else Some (''dual tracking errors: '' @ Join pairs ''; ''))"

text \<open>
  What a dual write has to do, given the call \<open>mc\<close> it would make on MAL and the call
  \<open>ac\<close> it would make on AniList: the trace grows by the call of every backend that is
  not skipped (MAL's first), whatever the other call returned, and the result is
  \<open>nil\<close> exactly when no call that was made returned an error.
\<close>

definition dual_write_contract ::
  "collaborators \<Rightarrow> call \<Rightarrow> call \<Rightarrow> string \<Rightarrow> int \<Rightarrow> string \<Rightarrow> int \<Rightarrow> trace
     \<Rightarrow> error option \<times> trace \<Rightarrow> bool" where
  "dual_write_contract K mc ac malToken malID anilistToken anilistID tr res =
     (let tr1 = (if skipped malToken malID then tr else tr @ [mc]);
          tr2 = (if skipped anilistToken anilistID then tr1 else tr1 @ [ac])
      in snd res = tr2 \<and>
         (fst res = None \<longleftrightarrow>
            (skipped malToken malID \<or> returned_error K tr mc = None) \<and>
            (skipped anilistToken anilistID \<or> returned_error K tr1 ac = None)))"

text \<open>
  The aggregated error of a dual write as the code orders it: MAL's pair first, then
  AniList's.
\<close>

definition dual_write_error ::
  "collaborators \<Rightarrow> call \<Rightarrow> call \<Rightarrow> string \<Rightarrow> int \<Rightarrow> string \<Rightarrow> int \<Rightarrow> trace
     \<Rightarrow> error option" where
  "dual_write_error K mc ac malToken malID anilistToken anilistID tr =
     (let tr1 = (if skipped malToken malID then tr else tr @ [mc])
      in aggregated
           ((if skipped malToken malID then [] else failure_pair ''MAL'' (returned_error K tr mc)) @
            (if skipped anilistToken anilistID then []
             else failure_pair ''AniList'' (returned_error K tr1 ac))))"

text \<open>
  The order the specification words give: the pair of the secondary backend first, then
  the pair of the primary one, the primary being the backend the service selector
  resolves.
\<close>

definition secondary_first_error :: "string \<Rightarrow> error option \<Rightarrow> error option \<Rightarrow> error option" where
  "secondary_first_error primary malErr anilistErr =
     aggregated
       (if primary = ''mal'' then failure_pair ''AniList'' anilistErr @ failure_pair ''MAL'' malErr
        else failure_pair ''MAL'' malErr @ failure_pair ''AniList'' anilistErr)"

text \<open>
  Backend names as the specification words them: recognised after case normalisation.
  Against it, the pairs \<open>ConvertIDIfNeeded\<close> converts: lower-case names only, compared
  as they are written.
\<close>

definition recognized_backend :: "(string \<Rightarrow> string) \<Rightarrow> string \<Rightarrow> bool" where
  "recognized_backend U name =
     (ToLower U name = ''anilist'' \<or> ToLower U name = ''mal'' \<or> ToLower U name = ''myanimelist'')"

definition MAL_name :: "string \<Rightarrow> bool" where
  "MAL_name service = (service = ''mal'' \<or> service = ''myanimelist'')"

definition convertible_pair :: "string \<Rightarrow> string \<Rightarrow> bool" where
  "convertible_pair fromService toService =
     (fromService = ''anilist'' \<and> (toService = ''mal'' \<or> toService = ''myanimelist'') \<or>
      (fromService = ''mal'' \<or> fromService = ''myanimelist'') \<and> toService = ''anilist'')"

text \<open>Sample collaborators for the concrete instances.\<close>

fun is_MAL_call :: "call \<Rightarrow> bool" where
  "is_MAL_call (Call_UpdateMALAnimeProgress t i p) = True"
| "is_MAL_call (Call_UpdateMALAnimeStatus t i s) = True"
| "is_MAL_call (Call_RateAnimeMAL t i) = True"
| "is_MAL_call c = False"

fun cross_reference :: "call \<Rightarrow> int" where
  "cross_reference (Call_GetAnimeMalID i) = i + 1000"
| "cross_reference (Call_ConvertMALIDToAnilist i t) = i - 1000"
| "cross_reference c = 0"

definition all_up :: collaborators where
  "all_up = \<lparr>unicodeLower = (\<lambda>s. s), returned_error = (\<lambda>tr c. None),
     returned_id = (\<lambda>tr c. cross_reference c)\<rparr>"

definition mal_down :: collaborators where
  "mal_down = \<lparr>unicodeLower = (\<lambda>s. s),
     returned_error = (\<lambda>tr c. if is_MAL_call c then Some ''connection refused'' else None),
     returned_id = (\<lambda>tr c. cross_reference c)\<rparr>"

definition all_down :: collaborators where
  "all_down = \<lparr>unicodeLower = (\<lambda>s. s), returned_error = (\<lambda>tr c. Some ''connection refused''),
     returned_id = (\<lambda>tr c. cross_reference c)\<rparr>"

definition sample_config :: "string \<Rightarrow> bool \<Rightarrow> CurdConfig" where
  "sample_config service dual =
     \<lparr>TrackingService = service, DualTracking = dual, RofiSelection = False\<rparr>"

text \<open>A list with the same identity in two categories, and the empty list.\<close>

definition inconsistent_list :: AnimeList where
  "inconsistent_list =
     \<lparr>Watching = [\<lparr>Media = \<lparr>ID = 7\<rparr>, Progress = 1, Status = ''CURRENT''\<rparr>,
                  \<lparr>Media = \<lparr>ID = 21\<rparr>, Progress = 3, Status = ''CURRENT''\<rparr>],
      Completed = [\<lparr>Media = \<lparr>ID = 30\<rparr>, Progress = 12, Status = ''COMPLETED''\<rparr>],
      Paused = [],
      Dropped = [\<lparr>Media = \<lparr>ID = 21\<rparr>, Progress = 9, Status = ''DROPPED''\<rparr>],
      Planning = [],
      Rewatching = []\<rparr>"

definition empty_list :: AnimeList where
  "empty_list =
     \<lparr>Watching = [], Completed = [], Paused = [], Dropped = [], Planning = [], Rewatching = []\<rparr>"

text \<open>
  The six canonical statuses, in AniList's spelling, and the list entry MAL reports once
  a status write is stored: the status is the one written, and the rewatching flag is set
  exactly when the write sets it (status and flag are one logical status).
\<close>

definition canonical_statuses :: "string list" where
  "canonical_statuses = [''CURRENT'', ''COMPLETED'', ''PAUSED'', ''DROPPED'', ''PLANNING'', ''REPEATING'']"

definition reported_after :: "(string \<times> string) list \<Rightarrow> MALAnimeListEntry \<Rightarrow> MALAnimeListEntry" where
  "reported_after form e =
     e\<lparr>ListStatus_Status := (case map_of form ''status'' of Some v \<Rightarrow> v | None \<Rightarrow> ListStatus_Status e),
       ListStatus_IsRewatching := (map_of form ''is_rewatching'' = Some ''true'')\<rparr>"

text \<open>
  The score \<open>RateAnimeMAL\<close> is supplied with, when there is one: the rofi answer parsed
  by \<open>Atoi\<close>, or the integer \<open>Scanln\<close> stored.
\<close>

definition supplied_score :: "MAL_env \<Rightarrow> int option" where
  "supplied_score E =
     (case GetGlobalConfig E of
        None \<Rightarrow> None
      | Some c \<Rightarrow>
          if RofiSelection c then
            (case GetUserInputFromRofi E of
               Inl err \<Rightarrow> None
             | Inr userInput \<Rightarrow> (case Atoi userInput of Inl err \<Rightarrow> None | Inr n \<Rightarrow> Some n))
          else Some (Scanln E))"

definition rating_request :: "string \<Rightarrow> int \<Rightarrow> string \<Rightarrow> Request" where
  "rating_request token mediaID scoreText =
     \<lparr>Method = ''PATCH'', URL = malAPIURL @ ''/anime/'' @ Itoa mediaID @ ''/my_list_status'',
      Header = [(''Authorization'', ''Bearer '' @ token),
                (''Content-Type'', ''application/x-www-form-urlencoded'')],
      Form = [(''score'', scoreText)]\<rparr>"







text \<open>
  Modelled from the spec: \<open>levenshtein\<close> is defined outside the given sources; the
  specification calls it the edit distance between candidate title and query. It is used
  in the concrete instances only.
\<close>

fun edit_distance :: "string \<Rightarrow> string \<Rightarrow> nat" where
  "edit_distance [] ys = length ys"
| "edit_distance (x # xs) [] = Suc (length xs)"
| "edit_distance (x # xs) (y # ys) =
     min (min (Suc (edit_distance xs (y # ys))) (Suc (edit_distance (x # xs) ys)))
         (edit_distance xs ys + (if x = y then 0 else 1))"

definition int_edit_distance :: "string \<Rightarrow> string \<Rightarrow> int" where
  "int_edit_distance a b = int (edit_distance a b)"

definition quoted :: "string \<Rightarrow> string" where
  "quoted s = [CHR 0x22] @ s @ [CHR 0x22]"

definition ok_backend :: "Request list \<Rightarrow> Request \<Rightarrow> Reply" where
  "ok_backend w req = Response 200 ''{}'' None"

definition two_ties :: "string \<Rightarrow> error + (int \<times> string) list" where
  "two_ties body = Inr [(3, ''abc''), (1, ''ab''), (2, ''ba'')]"



text \<open>A xorshift generator on 64 bits (shifts 13, 7, 17).\<close>

definition xorshift64 :: "nat \<Rightarrow> nat" where
  "xorshift64 r =
     (let r1 = take_bit 64 (r XOR push_bit 13 r);
          r2 = r1 XOR drop_bit 7 r1
      in take_bit 64 (r2 XOR push_bit 17 r2))"

definition sample_env :: MAL_env where
  "sample_env =
     \<lparr>http = ok_backend, Unmarshal_search = two_ties, xorshift_Next = xorshift64,
      levenshtein = int_edit_distance, today = ''2025-01-31'',
      GetGlobalConfig = Some (sample_config ''mal'' False),
      GetUserInputFromRofi = Inr ''7'', Scanln = 11, Quote = quoted\<rparr>"

definition rofi_env :: MAL_env where
  "rofi_env =
     sample_env\<lparr>GetGlobalConfig :=
       Some \<lparr>TrackingService = ''mal'', DualTracking = False, RofiSelection = True\<rparr>\<rparr>"


definition fresh_entry :: MALAnimeListEntry where
  "fresh_entry =
     \<lparr>Node_ID = 21, Node_Title = ''One Piece'', Node_MainPicture_Large = [],
      Node_MainPicture_Medium = [], Node_NumEpisodes = 0, ListStatus_Status = [],
      ListStatus_Score = 0, ListStatus_NumEpisodesWatched = 0, ListStatus_IsRewatching = False\<rparr>"

section \<open>Properties\<close>

text \<open>
  C5. For every media ID and every backend name \<open>b\<close>, \<open>ConvertIDIfNeeded(id, b, b)\<close>
  returns \<open>id\<close> unchanged with no error, and no lookup is performed: the trace of
  external calls is the one it started with, whatever the collaborators would answer.
\<close>

theorem ConvertIDIfNeeded_identity:
  "ConvertIDIfNeeded K id' b b tr = ((id', None), tr)"
  by (simp add: ConvertIDIfNeeded_def)


subsection \<open>Helper facts about the dual writes\<close>

lemma GetTrackingService_cases:
  "GetTrackingService K config = ''mal'' \<or> GetTrackingService K config = ''anilist''"
  by (simp add: GetTrackingService_def Let_def)

lemma GetTrackingService_mal_iff:
  "GetTrackingService K config = ''mal'' \<longleftrightarrow>
     ToLower (unicodeLower K) (TrackingService config) = ''mal'' \<or>
     ToLower (unicodeLower K) (TrackingService config) = ''myanimelist''"
  by (simp add: GetTrackingService_def Let_def)

lemma aggregated_None_iff: "aggregated pairs = None \<longleftrightarrow> pairs = []"
  by (simp add: aggregated_def)

lemma failure_pair_Nil_iff: "failure_pair b r = [] \<longleftrightarrow> r = None"
  by (simp add: failure_pair_def split: option.splits)

text \<open>
  With dual tracking enabled the three operations have one shape: the result and the
  trace are functions of the two candidate calls.
\<close>

lemma UpdateAnimeProgressDual_enabled:
  assumes "DualTracking config"
  shows "UpdateAnimeProgressDual K anilistToken malToken anilistID malID progress config tr =
     (dual_write_error K (Call_UpdateMALAnimeProgress malToken malID progress)
        (Call_UpdateAnimeProgress anilistToken anilistID progress) malToken malID anilistToken anilistID tr,
      (if skipped malToken malID then tr else tr @ [Call_UpdateMALAnimeProgress malToken malID progress]) @
      (if skipped anilistToken anilistID then [] else [Call_UpdateAnimeProgress anilistToken anilistID progress]))"
  using assms
  by (simp add: UpdateAnimeProgressDual_def dual_write_error_def skipped_def perform_def
      failure_pair_def aggregated_def Let_def not_le split: option.splits)

lemma UpdateAnimeStatusDual_enabled:
  assumes "DualTracking config"
  shows "UpdateAnimeStatusDual K anilistToken malToken anilistID malID status config tr =
     (dual_write_error K (Call_UpdateMALAnimeStatus malToken malID status)
        (Call_UpdateAnimeStatus anilistToken anilistID status) malToken malID anilistToken anilistID tr,
      (if skipped malToken malID then tr else tr @ [Call_UpdateMALAnimeStatus malToken malID status]) @
      (if skipped anilistToken anilistID then [] else [Call_UpdateAnimeStatus anilistToken anilistID status]))"
  using assms
  by (simp add: UpdateAnimeStatusDual_def dual_write_error_def skipped_def perform_def
      failure_pair_def aggregated_def Let_def not_le split: option.splits)

lemma RateAnimeDual_enabled:
  assumes "DualTracking config"
  shows "RateAnimeDual K anilistToken malToken anilistID malID config tr =
     (dual_write_error K (Call_RateAnimeMAL malToken malID)
        (Call_RateAnime anilistToken anilistID) malToken malID anilistToken anilistID tr,
      (if skipped malToken malID then tr else tr @ [Call_RateAnimeMAL malToken malID]) @
      (if skipped anilistToken anilistID then [] else [Call_RateAnime anilistToken anilistID]))"
  using assms
  by (simp add: RateAnimeDual_def dual_write_error_def skipped_def perform_def
      failure_pair_def aggregated_def Let_def not_le split: option.splits)

lemma dual_write_error_contract:
  "dual_write_contract K mc ac malToken malID anilistToken anilistID tr
     (dual_write_error K mc ac malToken malID anilistToken anilistID tr,
      (if skipped malToken malID then tr else tr @ [mc]) @
      (if skipped anilistToken anilistID then [] else [ac]))"
  by (simp add: dual_write_contract_def dual_write_error_def Let_def aggregated_None_iff
      failure_pair_Nil_iff)


subsection \<open>The dual-write coordinator\<close>

text \<open>
  C1. With dual tracking enabled, each of the three dual writes (progress, status,
  rating) treats the two backends independently: a backend is skipped when its token is
  empty or its media ID is not positive; the adapter of every backend that is not
  skipped is called, whatever the other call returned (the trace holds MAL's call and
  then AniList's, each exactly when that backend is not skipped); and the result is
  \<open>nil\<close> exactly when no call that was made returned an error, so a skipped backend
  is not a failure.
\<close>

theorem dual_writes_independent:
  assumes "DualTracking config"
  shows "dual_write_contract K (Call_UpdateMALAnimeProgress malToken malID progress)
           (Call_UpdateAnimeProgress anilistToken anilistID progress)
           malToken malID anilistToken anilistID tr
           (UpdateAnimeProgressDual K anilistToken malToken anilistID malID progress config tr) \<and>
         dual_write_contract K (Call_UpdateMALAnimeStatus malToken malID status)
           (Call_UpdateAnimeStatus anilistToken anilistID status)
           malToken malID anilistToken anilistID tr
           (UpdateAnimeStatusDual K anilistToken malToken anilistID malID status config tr) \<and>
         dual_write_contract K (Call_RateAnimeMAL malToken malID)
           (Call_RateAnime anilistToken anilistID)
           malToken malID anilistToken anilistID tr
           (RateAnimeDual K anilistToken malToken anilistID malID config tr)"
  unfolding UpdateAnimeProgressDual_enabled [OF assms] UpdateAnimeStatusDual_enabled [OF assms]
    RateAnimeDual_enabled [OF assms]
  by (intro conjI dual_write_error_contract)

text \<open>
  An instance: MAL fails and AniList is still called; and with the MAL token empty the
  one call made is AniList's and the result is \<open>nil\<close>.
\<close>

theorem dual_writes_independent_witness:
  "DualTracking (sample_config ''anilist'' True) \<and>
   UpdateAnimeProgressDual mal_down ''at'' ''mt'' 11 22 5 (sample_config ''anilist'' True) [] =
     (Some ''dual tracking errors: MAL: connection refused'',
      [Call_UpdateMALAnimeProgress ''mt'' 22 5, Call_UpdateAnimeProgress ''at'' 11 5]) \<and>
   UpdateAnimeStatusDual mal_down ''at'' [] 11 22 ''CURRENT'' (sample_config ''anilist'' True) [] =
     (None, [Call_UpdateAnimeStatus ''at'' 11 ''CURRENT'']) \<and>
   snd (RateAnimeDual mal_down ''at'' ''mt'' 0 22 (sample_config ''anilist'' True) []) =
     [Call_RateAnimeMAL ''mt'' 22] \<and>
   fst (RateAnimeDual mal_down ''at'' ''mt'' 0 22 (sample_config ''anilist'' True) []) \<noteq> None"
proof -
  have d: "DualTracking (sample_config ''anilist'' True)"
    by (simp add: sample_config_def)
  note c = dual_writes_independent [OF d, of mal_down]
  have p: "UpdateAnimeProgressDual mal_down ''at'' ''mt'' 11 22 5 (sample_config ''anilist'' True) [] =
     (Some ''dual tracking errors: MAL: connection refused'',
      [Call_UpdateMALAnimeProgress ''mt'' 22 5, Call_UpdateAnimeProgress ''at'' 11 5])"
    using c [of "''mt''" 22 5 "''at''" 11 "[]", THEN conjunct1]
    by (cases "UpdateAnimeProgressDual mal_down ''at'' ''mt'' 11 22 5 (sample_config ''anilist'' True) []")
      (simp add: UpdateAnimeProgressDual_def perform_def mal_down_def sample_config_def)
  have s: "UpdateAnimeStatusDual mal_down ''at'' [] 11 22 ''CURRENT'' (sample_config ''anilist'' True) [] =
     (None, [Call_UpdateAnimeStatus ''at'' 11 ''CURRENT''])"
    using c [of "[]" 22 _ "''at''" 11 "[]" "''CURRENT''", THEN conjunct2, THEN conjunct1]
    by (cases "UpdateAnimeStatusDual mal_down ''at'' [] 11 22 ''CURRENT'' (sample_config ''anilist'' True) []")
      (simp add: dual_write_contract_def skipped_def mal_down_def)
  have r: "snd (RateAnimeDual mal_down ''at'' ''mt'' 0 22 (sample_config ''anilist'' True) []) =
       [Call_RateAnimeMAL ''mt'' 22] \<and>
     fst (RateAnimeDual mal_down ''at'' ''mt'' 0 22 (sample_config ''anilist'' True) []) \<noteq> None"
    using c [of "''mt''" 22 _ "''at''" 0 "[]", THEN conjunct2, THEN conjunct2]
    by (simp add: dual_write_contract_def skipped_def mal_down_def)
  from d p s r show ?thesis by blast
qed


text \<open>
  C2, as amended. With dual tracking enabled, the result of each dual write is the
  aggregation of the failures of the calls that were made: none gives \<open>nil\<close>, and
  otherwise the message is \<open>"dual tracking errors: "\<close> followed by the pairs
  \<open>"<backend>: <error>"\<close> joined by \<open>"; "\<close>, MAL's pair first and AniList's second,
  whichever of the two the configuration makes the primary backend.
\<close>

theorem dual_write_aggregated_error:
  assumes "DualTracking config"
  shows "fst (UpdateAnimeProgressDual K anilistToken malToken anilistID malID progress config tr) =
           dual_write_error K (Call_UpdateMALAnimeProgress malToken malID progress)
             (Call_UpdateAnimeProgress anilistToken anilistID progress)
             malToken malID anilistToken anilistID tr \<and>
         fst (UpdateAnimeStatusDual K anilistToken malToken anilistID malID status config tr) =
           dual_write_error K (Call_UpdateMALAnimeStatus malToken malID status)
             (Call_UpdateAnimeStatus anilistToken anilistID status)
             malToken malID anilistToken anilistID tr \<and>
         fst (RateAnimeDual K anilistToken malToken anilistID malID config tr) =
           dual_write_error K (Call_RateAnimeMAL malToken malID)
             (Call_RateAnime anilistToken anilistID)
             malToken malID anilistToken anilistID tr"
  by (simp add: UpdateAnimeProgressDual_enabled [OF assms] UpdateAnimeStatusDual_enabled [OF assms]
      RateAnimeDual_enabled [OF assms])

theorem dual_write_aggregated_error_witness:
  "DualTracking (sample_config ''anilist'' True) \<and>
   fst (UpdateAnimeProgressDual all_down ''at'' ''mt'' 11 22 5 (sample_config ''anilist'' True) []) =
     Some ''dual tracking errors: MAL: connection refused; AniList: connection refused'' \<and>
   fst (UpdateAnimeStatusDual mal_down ''at'' ''mt'' 11 22 ''PAUSED'' (sample_config ''anilist'' True) []) =
     Some ''dual tracking errors: MAL: connection refused'' \<and>
   fst (RateAnimeDual all_up ''at'' ''mt'' 11 22 (sample_config ''anilist'' True) []) = None"
proof -
  have d: "DualTracking (sample_config ''anilist'' True)"
    by (simp add: sample_config_def)
  note e = dual_write_aggregated_error [OF d]
  have p: "fst (UpdateAnimeProgressDual all_down ''at'' ''mt'' 11 22 5 (sample_config ''anilist'' True) []) =
     Some ''dual tracking errors: MAL: connection refused; AniList: connection refused''"
    unfolding e [of all_down "''at''" "''mt''" 11 22 5 "[]", THEN conjunct1]
    by (simp add: dual_write_error_def skipped_def failure_pair_def aggregated_def all_down_def)
  have s: "fst (UpdateAnimeStatusDual mal_down ''at'' ''mt'' 11 22 ''PAUSED'' (sample_config ''anilist'' True) []) =
     Some ''dual tracking errors: MAL: connection refused''"
    unfolding e [of mal_down "''at''" "''mt''" 11 22 _ "[]" "''PAUSED''", THEN conjunct2, THEN conjunct1]
    by (simp add: dual_write_error_def skipped_def failure_pair_def aggregated_def mal_down_def)
  have r: "fst (RateAnimeDual all_up ''at'' ''mt'' 11 22 (sample_config ''anilist'' True) []) = None"
    unfolding e [of all_up "''at''" "''mt''" 11 22 _ "[]", THEN conjunct2, THEN conjunct2]
    by (simp add: dual_write_error_def skipped_def failure_pair_def aggregated_def all_up_def)
  from d p s r show ?thesis by blast
qed

text \<open>
  C2 as it is worded fails when MAL is the configured primary backend: both backends
  fail, the selector resolves \<open>"mal"\<close>, and the message still names MAL first, which is
  the primary pair before the secondary one.
\<close>

theorem secondary_first_counterexample:
  "GetTrackingService all_down (sample_config ''mal'' True) = ''mal'' \<and>
   fst (UpdateAnimeProgressDual all_down ''at'' ''mt'' 11 22 5 (sample_config ''mal'' True) []) =
     Some ''dual tracking errors: MAL: connection refused; AniList: connection refused'' \<and>
   secondary_first_error (GetTrackingService all_down (sample_config ''mal'' True))
       (Some ''connection refused'') (Some ''connection refused'') =
     Some ''dual tracking errors: AniList: connection refused; MAL: connection refused'' \<and>
   fst (UpdateAnimeProgressDual all_down ''at'' ''mt'' 11 22 5 (sample_config ''mal'' True) []) \<noteq>
     secondary_first_error (GetTrackingService all_down (sample_config ''mal'' True))
       (Some ''connection refused'') (Some ''connection refused'')"
proof -
  have g: "GetTrackingService all_down (sample_config ''mal'' True) = ''mal''"
    by (simp add: GetTrackingService_def ToLower_def isASCII_def lower_byte_def sample_config_def)
  have p: "fst (UpdateAnimeProgressDual all_down ''at'' ''mt'' 11 22 5 (sample_config ''mal'' True) []) =
     Some ''dual tracking errors: MAL: connection refused; AniList: connection refused''"
    by (simp add: UpdateAnimeProgressDual_def perform_def all_down_def sample_config_def)
  have c: "secondary_first_error ''mal'' (Some ''connection refused'') (Some ''connection refused'') =
     Some ''dual tracking errors: AniList: connection refused; MAL: connection refused''"
    by (simp add: secondary_first_error_def failure_pair_def aggregated_def)
  show ?thesis unfolding g p c by simp
qed

text \<open>
  C3. With dual tracking disabled, each dual write resolves the one primary backend from
  the configured service name (lower-cased; \<open>"mal"\<close> and \<open>"myanimelist"\<close> select MAL,
  every other value, the empty string included, selects AniList), calls that backend's
  adapter exactly once with that backend's token and ID, and returns what the call
  returned.
\<close>

theorem single_backend_when_dual_disabled:
  assumes "\<not> DualTracking config"
  shows "(GetTrackingService K config = ''mal'' \<longleftrightarrow>
            ToLower (unicodeLower K) (TrackingService config) = ''mal'' \<or>
            ToLower (unicodeLower K) (TrackingService config) = ''myanimelist'') \<and>
         (GetTrackingService K config \<noteq> ''mal'' \<longleftrightarrow> GetTrackingService K config = ''anilist'') \<and>
         GetTrackingService K (config\<lparr>TrackingService := []\<rparr>) = ''anilist'' \<and>
         UpdateAnimeProgressDual K anilistToken malToken anilistID malID progress config tr =
           (let c = (if GetTrackingService K config = ''mal''
                     then Call_UpdateMALAnimeProgress malToken malID progress
                     else Call_UpdateAnimeProgress anilistToken anilistID progress)
            in (returned_error K tr c, tr @ [c])) \<and>
         UpdateAnimeStatusDual K anilistToken malToken anilistID malID status config tr =
           (let c = (if GetTrackingService K config = ''mal''
                     then Call_UpdateMALAnimeStatus malToken malID status
                     else Call_UpdateAnimeStatus anilistToken anilistID status)
            in (returned_error K tr c, tr @ [c])) \<and>
         RateAnimeDual K anilistToken malToken anilistID malID config tr =
           (let c = (if GetTrackingService K config = ''mal''
                     then Call_RateAnimeMAL malToken malID
                     else Call_RateAnime anilistToken anilistID)
            in (returned_error K tr c, tr @ [c]))"
proof -
  have a: "GetTrackingService K config \<noteq> ''mal'' \<longleftrightarrow> GetTrackingService K config = ''anilist''"
    using GetTrackingService_cases [of K config] by auto
  have b: "GetTrackingService K (config\<lparr>TrackingService := []\<rparr>) = ''anilist''"
    by (simp add: GetTrackingService_def ToLower_def isASCII_def)
  have p: "UpdateAnimeProgressDual K anilistToken malToken anilistID malID progress config tr =
           (let c = (if GetTrackingService K config = ''mal''
                     then Call_UpdateMALAnimeProgress malToken malID progress
                     else Call_UpdateAnimeProgress anilistToken anilistID progress)
            in (returned_error K tr c, tr @ [c]))"
    using assms by (simp add: UpdateAnimeProgressDual_def perform_def Let_def)
  have s: "UpdateAnimeStatusDual K anilistToken malToken anilistID malID status config tr =
           (let c = (if GetTrackingService K config = ''mal''
                     then Call_UpdateMALAnimeStatus malToken malID status
                     else Call_UpdateAnimeStatus anilistToken anilistID status)
            in (returned_error K tr c, tr @ [c]))"
    using assms by (simp add: UpdateAnimeStatusDual_def perform_def Let_def)
  have r: "RateAnimeDual K anilistToken malToken anilistID malID config tr =
           (let c = (if GetTrackingService K config = ''mal''
                     then Call_RateAnimeMAL malToken malID
                     else Call_RateAnime anilistToken anilistID)
            in (returned_error K tr c, tr @ [c]))"
    using assms by (simp add: RateAnimeDual_def perform_def Let_def)
  from GetTrackingService_mal_iff [of K config] a b p s r show ?thesis by blast
qed

theorem single_backend_when_dual_disabled_witness:
  "\<not> DualTracking (sample_config ''MAL'' False) \<and>
   GetTrackingService all_down (sample_config ''MAL'' False) = ''mal'' \<and>
   UpdateAnimeProgressDual all_down ''at'' ''mt'' 11 22 5 (sample_config ''MAL'' False) [] =
     (Some ''connection refused'', [Call_UpdateMALAnimeProgress ''mt'' 22 5]) \<and>
   UpdateAnimeStatusDual all_down ''at'' ''mt'' 11 22 ''DROPPED'' (sample_config ''MAL'' False) [] =
     (Some ''connection refused'', [Call_UpdateMALAnimeStatus ''mt'' 22 ''DROPPED'']) \<and>
   RateAnimeDual all_down ''at'' ''mt'' 11 22 (sample_config ''MAL'' False) [] =
     (Some ''connection refused'', [Call_RateAnimeMAL ''mt'' 22])"
proof -
  have d: "\<not> DualTracking (sample_config ''MAL'' False)"
    by (simp add: sample_config_def)
  have l: "ToLower (unicodeLower all_down) (TrackingService (sample_config ''MAL'' False)) = ''mal''"
    by (simp add: ToLower_def isASCII_def lower_byte_def sample_config_def)
  note t = single_backend_when_dual_disabled [OF d, of all_down]
  have g: "GetTrackingService all_down (sample_config ''MAL'' False) = ''mal''"
    using t [THEN conjunct1] l by simp
  have e: "returned_error all_down [] c = Some ''connection refused''" for c
    by (simp add: all_down_def)
  show ?thesis
    using d g
      t [where malToken = "''mt''" and malID = 22 and progress = 5 and anilistToken = "''at''"
          and anilistID = 11 and tr = "[]" and status = "''DROPPED''"]
    by (simp add: e)
qed


text \<open>
  C10. \<open>UpdateAnimeProgressUnified\<close> calls the progress update of the resolved primary
  backend only, exactly once, and returns what that call returned, for every
  configuration, the ones with dual tracking enabled included: the trace grows by that
  one call, so the secondary backend is never called.
\<close>

theorem UpdateAnimeProgressUnified_primary_only:
  "UpdateAnimeProgressUnified K token mediaID progress config tr =
     (let c = (if GetTrackingService K config = ''mal''
               then Call_UpdateMALAnimeProgress token mediaID progress
               else Call_UpdateAnimeProgress token mediaID progress)
      in (returned_error K tr c, tr @ [c]))"
  by (simp add: UpdateAnimeProgressUnified_def perform_def Let_def)

theorem UpdateAnimeProgressUnified_primary_only_witness:
  "DualTracking (sample_config ''anilist'' True) \<and>
   UpdateAnimeProgressUnified all_up ''at'' 11 5 (sample_config ''anilist'' True) [] =
     (None, [Call_UpdateAnimeProgress ''at'' 11 5]) \<and>
   UpdateAnimeProgressUnified all_down ''mt'' 22 5 (sample_config ''mal'' True) [] =
     (Some ''connection refused'', [Call_UpdateMALAnimeProgress ''mt'' 22 5])"
proof -
  have a: "GetTrackingService all_up (sample_config ''anilist'' True) = ''anilist''"
    by (simp add: GetTrackingService_def ToLower_def isASCII_def lower_byte_def sample_config_def)
  have m: "GetTrackingService all_down (sample_config ''mal'' True) = ''mal''"
    by (simp add: GetTrackingService_def ToLower_def isASCII_def lower_byte_def sample_config_def)
  show ?thesis
    unfolding UpdateAnimeProgressUnified_primary_only a m
    by (simp add: sample_config_def all_up_def all_down_def)
qed

subsection \<open>Identity translation\<close>

text \<open>
  C9, as amended. For two different service names that are not both names of MAL,
  \<open>ConvertIDIfNeeded\<close> converts exactly the pairs \<open>"anilist"\<close> to
  \<open>"mal"\<close>/\<open>"myanimelist"\<close> (one call of \<open>GetAnimeMalID\<close>) and
  \<open>"mal"\<close>/\<open>"myanimelist"\<close> to \<open>"anilist"\<close> (one call of \<open>ConvertMALIDToAnilist\<close> with
  an empty token), the names compared as they are written, lower case, with no case
  normalisation; it returns what the lookup returned. For every other such pair it makes
  no call and returns the ID with the error
  \<open>"unsupported service conversion: <from> to <to>"\<close>.
\<close>

theorem ConvertIDIfNeeded_cross_backend:
  assumes "fromService \<noteq> toService"
    and "\<not> (MAL_name fromService \<and> MAL_name toService)"
  shows "ConvertIDIfNeeded K id' fromService toService tr =
     (if convertible_pair fromService toService then
        (let c = (if fromService = ''anilist'' then Call_GetAnimeMalID id'
                  else Call_ConvertMALIDToAnilist id' [])
         in ((returned_id K tr c, returned_error K tr c), tr @ [c]))
      else ((id', Some (''unsupported service conversion: '' @ fromService @ '' to '' @ toService)), tr))"
  using assms(1)
  by (auto simp add: ConvertIDIfNeeded_def convertible_pair_def perform_lookup_def Let_def)

theorem ConvertIDIfNeeded_cross_backend_witness:
  "''anilist'' \<noteq> ''mal'' \<and> ''myanimelist'' \<noteq> ''anilist'' \<and> ''anilist'' \<noteq> ''kitsu'' \<and>
   \<not> MAL_name ''anilist'' \<and>
   ConvertIDIfNeeded all_up 21 ''anilist'' ''mal'' [] = ((1021, None), [Call_GetAnimeMalID 21]) \<and>
   ConvertIDIfNeeded all_up 1021 ''myanimelist'' ''anilist'' [] =
     ((21, None), [Call_ConvertMALIDToAnilist 1021 []]) \<and>
   ConvertIDIfNeeded all_up 21 ''anilist'' ''kitsu'' [] =
     ((21, Some ''unsupported service conversion: anilist to kitsu''), [])"
proof -
  have n: "''anilist'' \<noteq> ''mal''" "''myanimelist'' \<noteq> ''anilist''" "''anilist'' \<noteq> ''kitsu''"
    by simp_all
  have a: "\<not> MAL_name ''anilist''"
    by (simp add: MAL_name_def)
  then have m: "\<not> (MAL_name ''anilist'' \<and> MAL_name x)" "\<not> (MAL_name x \<and> MAL_name ''anilist'')" for x
    by simp_all
  show ?thesis
    unfolding ConvertIDIfNeeded_cross_backend [OF n(1) m(1)]
      ConvertIDIfNeeded_cross_backend [OF n(2) m(2)] ConvertIDIfNeeded_cross_backend [OF n(3) m(1)]
    using a by (simp add: convertible_pair_def all_up_def)
qed

text \<open>
  C9 as it is worded fails: \<open>"AniList"\<close> and \<open>"mal"\<close> are both recognised once
  lower-cased, yet the conversion is refused and no lookup is made.
\<close>

theorem ConvertIDIfNeeded_case_counterexample:
  "recognized_backend (unicodeLower all_up) ''AniList'' \<and>
   recognized_backend (unicodeLower all_up) ''mal'' \<and>
   ConvertIDIfNeeded all_up 21 ''AniList'' ''mal'' [] =
     ((21, Some ''unsupported service conversion: AniList to mal''), [])"
  by (simp add: recognized_backend_def ToLower_def isASCII_def lower_byte_def
      ConvertIDIfNeeded_def all_up_def)

subsection \<open>Lookup in the unified list\<close>

lemma scan_category_find: "scan_category i es = find (\<lambda>e. ID (Media e) = i) es"
  by (induction es) simp_all

lemma find_append_cases:
  "find P (xs @ ys) = (case find P xs of Some x \<Rightarrow> Some x | None \<Rightarrow> find P ys)"
  by (induction xs) simp_all

lemma scan_categories_find:
  "scan_categories i cs = find (\<lambda>e. ID (Media e) = i) (concat cs)"
  by (induction cs) (simp_all add: scan_category_find find_append_cases split: option.splits)

lemma decimal_digit: "n < 10 \<Longrightarrow> decimal n = [digit_char n]"
  by (simp add: decimal.simps)

lemma decimal_step: "10 \<le> n \<Longrightarrow> decimal n = decimal (n div 10) @ [digit_char (n mod 10)]"
  by (subst decimal.simps) simp

text \<open>
  C4. \<open>FindAnimeByIDUnified\<close> fails with the invalid-ID error when the text does not
  parse as an integer. When it parses, the categories are scanned in the order Watching,
  Completed, Paused, Dropped, Planning, Rewatching, and the result is the first entry of
  that order whose media ID is the parsed integer (so an ID found in Watching yields an
  entry of Watching, whatever the later categories hold); when no category holds the ID
  the not-found error is returned.
\<close>

theorem FindAnimeByIDUnified_first_match:
  "(\<forall>err. Atoi idStr = Inl err \<longrightarrow>
      FindAnimeByIDUnified list idStr = Inl (''invalid ID format: '' @ idStr)) \<and>
   (\<forall>i. Atoi idStr = Inr i \<longrightarrow>
      FindAnimeByIDUnified list idStr =
        (case find (\<lambda>e. ID (Media e) = i)
                (Watching list @ Completed list @ Paused list @ Dropped list @ Planning list @
                 Rewatching list) of
           Some entry \<Rightarrow> Inr entry
         | None \<Rightarrow> Inl (''anime with ID '' @ Itoa i @ '' not found'')) \<and>
      ((\<exists>e \<in> set (Watching list). ID (Media e) = i) \<longrightarrow>
         (\<exists>e \<in> set (Watching list). ID (Media e) = i \<and> FindAnimeByIDUnified list idStr = Inr e)))"
proof (intro conjI allI impI)
  fix err assume "Atoi idStr = Inl err"
  then show "FindAnimeByIDUnified list idStr = Inl (''invalid ID format: '' @ idStr)"
    by (simp add: FindAnimeByIDUnified_def)
next
  fix i assume a: "Atoi idStr = Inr i"
  then show "FindAnimeByIDUnified list idStr =
        (case find (\<lambda>e. ID (Media e) = i)
                (Watching list @ Completed list @ Paused list @ Dropped list @ Planning list @
                 Rewatching list) of
           Some entry \<Rightarrow> Inr entry
         | None \<Rightarrow> Inl (''anime with ID '' @ Itoa i @ '' not found''))"
    by (simp add: FindAnimeByIDUnified_def scan_categories_find)
next
  fix i assume a: "Atoi idStr = Inr i"
    and w: "\<exists>e \<in> set (Watching list). ID (Media e) = i"
  from w obtain e where e: "find (\<lambda>e. ID (Media e) = i) (Watching list) = Some e"
    by (cases "find (\<lambda>e. ID (Media e) = i) (Watching list)") (auto simp: find_None_iff)
  then have m: "e \<in> set (Watching list)" "ID (Media e) = i"
    by (auto simp: find_Some_iff)
  have "FindAnimeByIDUnified list idStr = Inr e"
    using a e by (simp add: FindAnimeByIDUnified_def scan_categories_find find_append_cases)
  with m show "\<exists>e \<in> set (Watching list). ID (Media e) = i \<and> FindAnimeByIDUnified list idStr = Inr e"
    by blast
qed

theorem FindAnimeByIDUnified_first_match_witness:
  "FindAnimeByIDUnified inconsistent_list ''notanumber'' = Inl ''invalid ID format: notanumber'' \<and>
   FindAnimeByIDUnified inconsistent_list ''21'' =
     Inr \<lparr>Media = \<lparr>ID = 21\<rparr>, Progress = 3, Status = ''CURRENT''\<rparr> \<and>
   FindAnimeByIDUnified inconsistent_list ''30'' =
     Inr \<lparr>Media = \<lparr>ID = 30\<rparr>, Progress = 12, Status = ''COMPLETED''\<rparr> \<and>
   FindAnimeByIDUnified empty_list ''999999'' = Inl ''anime with ID 999999 not found''"
proof -
  have n: "Atoi ''notanumber'' = Inl ErrSyntax"
    by (simp add: Atoi_def ParseUint_def digit_value_def)
  have a21: "Atoi ''21'' = Inr 21"
    by (simp add: Atoi_def ParseUint_def digit_value_def)
  have a30: "Atoi ''30'' = Inr 30"
    by (simp add: Atoi_def ParseUint_def digit_value_def)
  have a9: "Atoi ''999999'' = Inr 999999"
    by (simp add: Atoi_def ParseUint_def digit_value_def)
  have i9: "Itoa 999999 = ''999999''"
    by (simp add: Itoa_def decimal_step decimal_digit digit_char_def)
  note t = FindAnimeByIDUnified_first_match
  have 1: "FindAnimeByIDUnified inconsistent_list ''notanumber'' = Inl ''invalid ID format: notanumber''"
    using t [of "''notanumber''" inconsistent_list] n by simp
  have 2: "FindAnimeByIDUnified inconsistent_list ''21'' =
     Inr \<lparr>Media = \<lparr>ID = 21\<rparr>, Progress = 3, Status = ''CURRENT''\<rparr>"
    using t [of "''21''" inconsistent_list, THEN conjunct2, rule_format, OF a21, THEN conjunct1]
    by (simp add: inconsistent_list_def)
  have 3: "FindAnimeByIDUnified inconsistent_list ''30'' =
     Inr \<lparr>Media = \<lparr>ID = 30\<rparr>, Progress = 12, Status = ''COMPLETED''\<rparr>"
    using t [of "''30''" inconsistent_list, THEN conjunct2, rule_format, OF a30, THEN conjunct1]
    by (simp add: inconsistent_list_def)
  have 4: "FindAnimeByIDUnified empty_list ''999999'' = Inl ''anime with ID 999999 not found''"
    using t [of "''999999''" empty_list, THEN conjunct2, rule_format, OF a9, THEN conjunct1]
    by (simp add: empty_list_def i9)
  from 1 2 3 4 show ?thesis by blast
qed



subsection \<open>The MAL adapter\<close>

lemma status_written:
  "Form (last (snd (UpdateMALAnimeStatus E token mediaID ''CURRENT'' w))) = [(''status'', ''watching'')]"
  "Form (last (snd (UpdateMALAnimeStatus E token mediaID ''COMPLETED'' w))) =
     [(''status'', ''completed''), (''finish_date'', today E)]"
  "Form (last (snd (UpdateMALAnimeStatus E token mediaID ''PAUSED'' w))) = [(''status'', ''on_hold'')]"
  "Form (last (snd (UpdateMALAnimeStatus E token mediaID ''DROPPED'' w))) = [(''status'', ''dropped'')]"
  "Form (last (snd (UpdateMALAnimeStatus E token mediaID ''PLANNING'' w))) = [(''status'', ''plan_to_watch'')]"
  "Form (last (snd (UpdateMALAnimeStatus E token mediaID ''REPEATING'' w))) =
     [(''status'', ''watching''), (''is_rewatching'', ''true'')]"
  by (simp_all add: UpdateMALAnimeStatus_def client_Do_def Let_def split: Reply.splits)

text \<open>
  C6. The status translation round-trips through MAL: for each of the six canonical
  statuses, the fields \<open>UpdateMALAnimeStatus\<close> writes (for \<open>REPEATING\<close> the status
  \<open>watching\<close> together with \<open>is_rewatching = true\<close>), read back by
  \<open>convertMALToAnilistFormat\<close> from the entry that reports them, give the status that was
  written.
\<close>

theorem MAL_status_round_trip:
  assumes "s \<in> set canonical_statuses"
  shows "map entry_status
           (convertMALToAnilistFormat
              [reported_after (Form (last (snd (UpdateMALAnimeStatus E token mediaID s w)))) e]) = [s] \<and>
         Form (last (snd (UpdateMALAnimeStatus E token mediaID ''REPEATING'' w))) =
           [(''status'', ''watching''), (''is_rewatching'', ''true'')]"
proof -
  from assms have d: "s = ''CURRENT'' \<or> s = ''COMPLETED'' \<or> s = ''PAUSED'' \<or> s = ''DROPPED'' \<or>
      s = ''PLANNING'' \<or> s = ''REPEATING''"
    by (simp add: canonical_statuses_def)
  have "map entry_status
           (convertMALToAnilistFormat
              [reported_after (Form (last (snd (UpdateMALAnimeStatus E token mediaID s w)))) e]) = [s]"
    using d
  proof (elim disjE)
    assume "s = ''CURRENT''"
    then show ?thesis by (simp add: status_written(1) reported_after_def)
  next
    assume "s = ''COMPLETED''"
    then show ?thesis by (simp add: status_written(2) reported_after_def)
  next
    assume "s = ''PAUSED''"
    then show ?thesis by (simp add: status_written(3) reported_after_def)
  next
    assume "s = ''DROPPED''"
    then show ?thesis by (simp add: status_written(4) reported_after_def)
  next
    assume "s = ''PLANNING''"
    then show ?thesis by (simp add: status_written(5) reported_after_def)
  next
    assume "s = ''REPEATING''"
    then show ?thesis by (simp add: status_written(6) reported_after_def)
  qed
  then show ?thesis
    by (simp add: status_written(6))
qed

theorem MAL_status_round_trip_witness:
  "''REPEATING'' \<in> set canonical_statuses \<and> ''CURRENT'' \<in> set canonical_statuses \<and>
   length canonical_statuses = 6 \<and>
   map entry_status
     (convertMALToAnilistFormat
        [reported_after (Form (last (snd (UpdateMALAnimeStatus sample_env ''tok'' 21 ''REPEATING'' []))))
           fresh_entry]) = [''REPEATING''] \<and>
   map entry_status
     (convertMALToAnilistFormat
        [reported_after (Form (last (snd (UpdateMALAnimeStatus sample_env ''tok'' 21 ''CURRENT'' []))))
           fresh_entry]) = [''CURRENT'']"
proof -
  have r: "''REPEATING'' \<in> set canonical_statuses" and c: "''CURRENT'' \<in> set canonical_statuses"
    and l: "length canonical_statuses = 6"
    by (simp_all add: canonical_statuses_def)
  from r c l MAL_status_round_trip [OF r, of sample_env "''tok''" 21 "[]" fresh_entry, THEN conjunct1]
    MAL_status_round_trip [OF c, of sample_env "''tok''" 21 "[]" fresh_entry, THEN conjunct1]
  show ?thesis by blast
qed

text \<open>
  C8. \<open>RateAnimeMAL\<close> validates the score it is supplied with: a score outside
  \<open>[0, 10]\<close> gives the error \<open>"score must be between 0 and 10"\<close> and no request is
  sent; a score inside the range is sent as it is, as the one field \<open>score\<close> of one
  \<open>PATCH\<close> request for the media, and the call succeeds exactly when the backend
  answers that request with status 200.
\<close>

theorem RateAnimeMAL_validates_score:
  assumes "supplied_score E = Some s"
  shows "(s < 0 \<or> s > 10 \<longrightarrow>
            RateAnimeMAL E token mediaID w = (Some ''score must be between 0 and 10'', w)) \<and>
         (0 \<le> s \<and> s \<le> 10 \<longrightarrow>
            snd (RateAnimeMAL E token mediaID w) = w @ [rating_request token mediaID (Itoa s)] \<and>
            (fst (RateAnimeMAL E token mediaID w) = None \<longleftrightarrow>
               (\<exists>body readErr. http E w (rating_request token mediaID (Itoa s)) = Response 200 body readErr)))"
proof -
  from assms obtain c where c: "GetGlobalConfig E = Some c"
    by (auto simp: supplied_score_def split: option.splits)
  have src: "(if RofiSelection c then
                (case GetUserInputFromRofi E of
                   Inl err \<Rightarrow> Inl err
                 | Inr userInput \<Rightarrow>
                     (case Atoi userInput of
                        Inl err \<Rightarrow> Inl (NumError_Error (Quote E) ''Atoi'' userInput err)
                      | Inr n \<Rightarrow> Inr n))
              else Inr (Scanln E)) = Inr s"
    using assms c by (auto simp: supplied_score_def split: if_splits sum.splits)
  have out: "s < 0 \<or> s > 10 \<Longrightarrow>
      RateAnimeMAL E token mediaID w = (Some ''score must be between 0 and 10'', w)"
    unfolding RateAnimeMAL_def c option.case src by auto
  have sent: "0 \<le> s \<and> s \<le> 10 \<Longrightarrow>
      snd (RateAnimeMAL E token mediaID w) = w @ [rating_request token mediaID (Itoa s)]"
    unfolding RateAnimeMAL_def c option.case src
    by (simp add: client_Do_def rating_request_def Let_def split: Reply.splits)
  have ok: "0 \<le> s \<and> s \<le> 10 \<Longrightarrow>
      (fst (RateAnimeMAL E token mediaID w) = None \<longleftrightarrow>
         (\<exists>body readErr. http E w (rating_request token mediaID (Itoa s)) = Response 200 body readErr))"
    unfolding RateAnimeMAL_def c option.case src
    by (simp add: client_Do_def rating_request_def Let_def split: Reply.splits)
  from out sent ok show ?thesis by blast
qed

theorem RateAnimeMAL_validates_score_witness:
  "supplied_score sample_env = Some 11 \<and> supplied_score rofi_env = Some 7 \<and>
   RateAnimeMAL sample_env ''tok'' 21 [] = (Some ''score must be between 0 and 10'', []) \<and>
   RateAnimeMAL rofi_env ''tok'' 21 [] = (None, [rating_request ''tok'' 21 ''7''])"
proof -
  have a: "supplied_score sample_env = Some 11"
    by (simp add: supplied_score_def sample_env_def sample_config_def)
  have b: "supplied_score rofi_env = Some 7"
    by (simp add: supplied_score_def rofi_env_def sample_env_def Atoi_def ParseUint_def digit_value_def)
  have i: "Itoa 7 = ''7''"
    by (simp add: Itoa_def decimal_digit digit_char_def)
  have h: "http rofi_env [] (rating_request ''tok'' 21 ''7'') = Response 200 ''{}'' None"
    by (simp add: rofi_env_def sample_env_def ok_backend_def)
  have 1: "RateAnimeMAL sample_env ''tok'' 21 [] = (Some ''score must be between 0 and 10'', [])"
    using RateAnimeMAL_validates_score [OF a, of "''tok''" 21 "[]"] by simp
  have 2: "RateAnimeMAL rofi_env ''tok'' 21 [] = (None, [rating_request ''tok'' 21 ''7''])"
    using RateAnimeMAL_validates_score [OF b, of "''tok''" 21 "[]"] h
    by (cases "RateAnimeMAL rofi_env ''tok'' 21 []") (simp add: i)
  from a b 1 2 show ?thesis by blast
qed

subsection \<open>Search on MAL\<close>





















end
